theory Spec2Isabelle
  imports Main "HOL-Library.AList"
begin

section \<open>Values and the external collaborators of \<open>src/index.ts\<close>\<close>

text \<open>
  JavaScript values as far as \<open>persist\<close> looks at them. An object is the list of its
  own properties in insertion order. \<open>JNaN\<close> is kept apart from the other numbers because
  it is falsy. Values are immutable here: a snapshot, the initial state and the stored
  data do not change behind the session's back. The section on object identity has
  \<open>persist\<close> and \<open>restore\<close> with objects as references.
\<close>

datatype jsval =
    JUndefined
  | JNull
  | JBool bool
  | JNum int
  | JNaN
  | JStr string
  | JObj "(string \<times> jsval) list"

type_synonym fields = "(string \<times> jsval) list"

text \<open>JavaScript truthiness, as tested by \<open>x || null\<close>, \<open>x ? a : b\<close> and \<open>if (x)\<close>.\<close>

fun truthy :: "jsval \<Rightarrow> bool" where
  "truthy JUndefined = False"
| "truthy JNull = False"
| "truthy (JBool b) = b"
| "truthy (JNum n) = (n \<noteq> 0)"
| "truthy JNaN = False"
| "truthy (JStr s) = (s \<noteq> [])"
| "truthy (JObj fs) = True"

text \<open>The idiom \<open>x || null\<close> of lines 123-135 and 211-223.\<close>

definition or_null :: "jsval \<Rightarrow> jsval" where
  "or_null v = (if truthy v then v else JNull)"

datatype error = ObjectRequired

text \<open>
  The library valtio is not part of the repository. Its \<open>proxy(baseObject = {})\<close> has a
  default parameter, which JavaScript substitutes for \<open>undefined\<close> only, and throws
  \<open>Error('object required')\<close> for every other value that is not an object. The live
  store is represented by its current own properties; \<open>snapshot\<close> reads them as an
  immutable object.
\<close>

fun proxy :: "jsval \<Rightarrow> error + fields" where
  "proxy JUndefined = Inr []"
| "proxy (JObj fs) = Inr fs"
| "proxy JNull = Inl ObjectRequired"
| "proxy (JBool b) = Inl ObjectRequired"
| "proxy (JNum n) = Inl ObjectRequired"
| "proxy JNaN = Inl ObjectRequired"
| "proxy (JStr s) = Inl ObjectRequired"

definition snapshot :: "fields \<Rightarrow> jsval" where
  "snapshot st = JObj st"

text \<open>
  Assigning properties one after the other, \<open>target[k] = v\<close>: a property the target
  has keeps its position, a new one goes last.
\<close>

definition assign :: "fields \<Rightarrow> fields \<Rightarrow> fields" where
  "assign target src = foldl (\<lambda>acc kv. AList.update (fst kv) (snd kv) acc) target src"

section \<open>Process state and the storage strategy\<close>

datatype call = StorageGet string | StorageSet string jsval | StorageRemove string

text \<open>
  The state outside any one session: the module-level flag \<open>userProvidedKey\<close> (line 63,
  true when the module is loaded), the contents of the storage backend, and the calls made
  to the storage strategy, oldest first.
\<close>

record process =
  userProvidedKey :: bool
  backend :: "string \<rightharpoonup> jsval"
  calls :: "call list"

definition initial_process :: "(string \<rightharpoonup> jsval) \<Rightarrow> process" where
  "initial_process b = \<lparr>userProvidedKey = True, backend = b, calls = []\<rparr>"

text \<open>
  Modelled from the spec: the storage strategies of \<open>./storage\<close> are not in the
  sources. Section 6 gives their contract, \<open>get(key) -> data|absent\<close>,
  \<open>set(key, data)\<close>, \<open>remove(key)\<close>: a key-value map. The legacy shim of lines
  101-118 hands \<open>get\<close>, \<open>set\<close> and \<open>remove\<close> through unchanged. The synchronous and
  the awaited branch of every strategy call do the same work; the model runs each
  operation to its end before the next one starts.
\<close>

definition storage_get :: "string \<Rightarrow> process \<Rightarrow> jsval \<times> process" where
  "storage_get k p =
     ((case backend p k of None \<Rightarrow> JNull | Some d \<Rightarrow> d),
      p\<lparr>calls := calls p @ [StorageGet k]\<rparr>)"

definition storage_set :: "string \<Rightarrow> jsval \<Rightarrow> process \<Rightarrow> process" where
  "storage_set k d p =
     p\<lparr>backend := (backend p)(k \<mapsto> d), calls := calls p @ [StorageSet k d]\<rparr>"

definition storage_remove :: "string \<Rightarrow> process \<Rightarrow> process" where
  "storage_remove k p =
     p\<lparr>backend := (backend p)(k := None), calls := calls p @ [StorageRemove k]\<rparr>"

section \<open>Options and sessions\<close>

text \<open>
  The resolved options \<open>o\<close> of line 79, with the serializer's and the merger's methods
  as functions (a strategy that throws is outside the model). \<open>o_key = []\<close> is the
  empty default of line 70.
\<close>

record options =
  o_key :: string
  serialize :: "jsval \<Rightarrow> jsval"
  deserialize :: "jsval \<Rightarrow> jsval"
  merge :: "jsval \<Rightarrow> jsval \<Rightarrow> jsval"
  shouldPersist :: "jsval \<Rightarrow> jsval \<Rightarrow> bool"
  debounceTime :: nat
  updateStorageKeyOnStructureChange :: bool

text \<open>
  What the closures of one \<open>persist\<close> call share: the constants \<open>key\<close>,
  \<open>initialState\<close> and the options, and the mutable store, \<open>previousState\<close> and the
  debounce timer (the milliseconds left until it fires, when one is pending).
\<close>

record session =
  key :: string
  initialState :: jsval
  opts :: options
  store :: fields
  previousState :: jsval
  timer :: "nat option"

text \<open>
  Lines 122-136 and, word for word, lines 210-224: read the storage at the key,
  deserialize, merge with the initial state.
\<close>

definition load_merged :: "jsval \<Rightarrow> options \<Rightarrow> string \<Rightarrow> process \<Rightarrow> jsval \<times> process" where
  "load_merged init ops k p =
     (let (got, p') = storage_get k p;
          data = or_null got;
          storedState = (if truthy data then or_null (deserialize ops data) else JNull);
          mergedState =
            (if truthy storedState then or_null (merge ops init storedState) else JUndefined)
      in (mergedState, p'))"

text \<open>
  Line 81: the key of the session. \<open>generateStructureId\<close> comes from the library
  structure-id and is a parameter.
\<close>

definition initial_key :: "(jsval \<Rightarrow> string) \<Rightarrow> jsval \<Rightarrow> options \<Rightarrow> string" where
  "initial_key generateStructureId init ops =
     (if o_key ops = [] then generateStructureId init else o_key ops)"

text \<open>
  \<open>persist\<close>, lines 65-140 and 199-233: the result is the session that the returned
  handle and the subscriber share, or the error that \<open>proxy\<close> throws.
\<close>

definition persist ::
  "(jsval \<Rightarrow> string) \<Rightarrow> jsval \<Rightarrow> options \<Rightarrow> process \<Rightarrow> (error + session) \<times> process" where
  "persist generateStructureId init ops p =
     (let k = initial_key generateStructureId init ops;
          p1 = (if o_key ops = [] then p\<lparr>userProvidedKey := False\<rparr> else p);
          (mergedState, p2) = load_merged init ops k p1
      in case proxy mergedState of
           Inl e \<Rightarrow> (Inl e, p2)
         | Inr st \<Rightarrow>
             (Inr \<lparr>key = k, initialState = init, opts = ops, store = st,
                   previousState = snapshot st, timer = None\<rparr>, p2))"

text \<open>\<open>persistData\<close>, lines 143-164: the handle's \<open>persist()\<close>.\<close>

definition persistData :: "session \<Rightarrow> process \<Rightarrow> process" where
  "persistData s p =
     (let currentState = snapshot (store s)
      in if \<not> shouldPersist (opts s) (previousState s) currentState then p
         else storage_set (key s) (serialize (opts s) currentState) p)"

text \<open>
  Modelled from the spec: \<open>debounce\<close> of \<open>./utils\<close> is not in the sources. Section 5:
  a trailing-edge debounce whose timer is reset on each call; the wrapped function runs
  once when the window has elapsed.
\<close>

definition debouncedPersist :: "session \<Rightarrow> session" where
  "debouncedPersist s = s\<lparr>timer := Some (debounceTime (opts s))\<rparr>"

definition elapse :: "nat \<Rightarrow> session \<Rightarrow> process \<Rightarrow> session \<times> process" where
  "elapse d s p =
     (case timer s of
        None \<Rightarrow> (s, p)
      | Some r \<Rightarrow>
          if r \<le> d then (s\<lparr>timer := None\<rparr>, persistData s p)
          else (s\<lparr>timer := Some (r - d)\<rparr>, p))"

text \<open>The guard of line 176, on the snapshot taken after the mutation.\<close>

definition migration_due :: "(jsval \<Rightarrow> string) \<Rightarrow> session \<Rightarrow> process \<Rightarrow> bool" where
  "migration_due generateStructureId s p =
     (key s \<noteq> generateStructureId (snapshot (store s)) \<and> \<not> userProvidedKey p
      \<and> updateStorageKeyOnStructureChange (opts s))"

text \<open>
  The subscriber of lines 170-196, run after the store has been mutated, with a
  synchronous serializer and storage: it then runs to its end without an \<open>await\<close>. The
  awaited branches are in the section on asynchronous strategies.
\<close>

definition subscriber :: "(jsval \<Rightarrow> string) \<Rightarrow> session \<Rightarrow> process \<Rightarrow> session \<times> process" where
  "subscriber generateStructureId s p =
     (let currentState = snapshot (store s);
          generatedId = generateStructureId currentState;
          p1 = (if migration_due generateStructureId s p
                then storage_set generatedId (serialize (opts s) currentState)
                       (storage_remove (key s) p)
                else p);
          s1 = (if shouldPersist (opts s) (previousState s) currentState
                then debouncedPersist s else s)
      in (s1\<lparr>previousState := currentState\<rparr>, p1))"

text \<open>\<open>clear\<close>, lines 202-208.\<close>

definition clear :: "session \<Rightarrow> process \<Rightarrow> session \<times> process" where
  "clear s p = (s, storage_remove (key s) p)"

text \<open>
  Modelled from the spec: \<open>updateStore\<close> of \<open>./utils\<close> is not in the sources. Section
  4.4: it applies the merged result's fields onto the live store in place. A merged
  value that is no object has no fields to apply.
\<close>

definition updateStore :: "fields \<Rightarrow> jsval \<Rightarrow> fields" where
  "updateStore st newState =
     (case newState of
        JObj fs \<Rightarrow> assign st fs
      | _ \<Rightarrow> st)"

text \<open>\<open>restore\<close>, lines 209-232.\<close>

definition restore :: "session \<Rightarrow> process \<Rightarrow> bool \<times> session \<times> process" where
  "restore s p =
     (let (mergedState, p') = load_merged (initialState s) (opts s) (key s) p
      in if truthy mergedState
         then (True, s\<lparr>store := updateStore (store s) mergedState\<rparr>, p')
         else (False, s, p'))"

section \<open>Runs of one session\<close>

text \<open>
  What can happen to a session: the caller mutates the store (leaving it with the given
  properties) and the subscriber is notified; the given number of milliseconds pass; the
  caller calls one of the three operations of the handle. The notification that valtio
  sends after \<open>restore()\<close> has assigned to the store is a \<open>Mutation\<close> event of its own,
  with the properties the store has by then.
\<close>

datatype event =
    Mutation fields
  | Elapse nat
  | CallPersist
  | CallRestore
  | CallClear

fun step :: "(jsval \<Rightarrow> string) \<Rightarrow> event \<Rightarrow> session \<times> process \<Rightarrow> session \<times> process" where
  "step g (Mutation ns) (s, p) = subscriber g (s\<lparr>store := ns\<rparr>) p"
| "step g (Elapse d) (s, p) = elapse d s p"
| "step g CallPersist (s, p) = (s, persistData s p)"
| "step g CallRestore (s, p) = snd (restore s p)"
| "step g CallClear (s, p) = clear s p"

fun run :: "(jsval \<Rightarrow> string) \<Rightarrow> event list \<Rightarrow> session \<times> process \<Rightarrow> session \<times> process" where
  "run g [] sp = sp"
| "run g (e # es) sp = run g es (step g e sp)"

section \<open>Observations on a run\<close>

fun is_set :: "call \<Rightarrow> bool" where
  "is_set (StorageSet k d) = True"
| "is_set (StorageGet k) = False"
| "is_set (StorageRemove k) = False"

text \<open>
  The writes of the migration block (line 183) that a list of events causes in a session:
  one for each mutation on which the guard of line 176 holds.
\<close>

fun migration_sets :: "(jsval \<Rightarrow> string) \<Rightarrow> session \<Rightarrow> process \<Rightarrow> event list \<Rightarrow> call list" where
  "migration_sets g s p [] = []"
| "migration_sets g s p (Mutation ns # es) =
     (if migration_due g (s\<lparr>store := ns\<rparr>) p
      then StorageSet (g (snapshot ns)) (serialize (opts s) (snapshot ns)) # migration_sets g s p es
      else migration_sets g s p es)"
| "migration_sets g s p (Elapse d # es) = migration_sets g s p es"
| "migration_sets g s p (CallPersist # es) = migration_sets g s p es"
| "migration_sets g s p (CallRestore # es) = migration_sets g s p es"
| "migration_sets g s p (CallClear # es) = migration_sets g s p es"

section \<open>Asynchronous strategies\<close>

text \<open>
  The capability flags that \<open>isSyncStorage\<close> and \<open>isSyncSerializer\<close> read (lines
  45-55). With an asynchronous strategy the code awaits the strategy's call; an async
  function that reaches an \<open>await\<close> is suspended, and what happens before it is
  resumed is up to the event loop.
\<close>

record capabilities =
  storage_isAsync :: bool
  serializer_isAsync :: bool

text \<open>
  A suspended call, with the variables it holds: the subscriber at the \<open>await\<close> of
  line 179, of line 185 and of line 186, and \<open>persistData\<close> at the \<open>await\<close> of line
  153.
\<close>

datatype task =
    SubscriberAwaitsSerialize jsval string
  | SubscriberAwaitsRemove jsval string jsval
  | SubscriberAwaitsSet jsval
  | PersistAwaitsSerialize jsval

text \<open>Lines 190-195: what the subscriber does after the migration block.\<close>

definition subscriber_rest :: "jsval \<Rightarrow> session \<Rightarrow> session" where
  "subscriber_rest currentState s =
     (if shouldPersist (opts s) (previousState s) currentState
      then debouncedPersist s else s)\<lparr>previousState := currentState\<rparr>"

text \<open>
  Lines 181-187, once the serialized data is there. A storage call is recorded, and
  takes effect, when it is made; with an asynchronous storage the subscriber is then
  suspended until the call has completed.
\<close>

definition migrate ::
  "capabilities \<Rightarrow> jsval \<Rightarrow> string \<Rightarrow> jsval \<Rightarrow> session \<Rightarrow> process
     \<Rightarrow> session \<times> process \<times> task list" where
  "migrate caps currentState generatedId data s p =
     (if \<not> storage_isAsync caps
      then (subscriber_rest currentState s,
            storage_set generatedId data (storage_remove (key s) p), [])
      else (s, storage_remove (key s) p,
            [SubscriberAwaitsRemove currentState generatedId data]))"

text \<open>
  The subscriber of lines 170-196 up to its first \<open>await\<close>. When the guard of line 176
  fails it reaches none and runs to its end, whatever the strategies are.
\<close>

definition subscriber_async ::
  "capabilities \<Rightarrow> (jsval \<Rightarrow> string) \<Rightarrow> session \<Rightarrow> process \<Rightarrow> session \<times> process \<times> task list" where
  "subscriber_async caps generateStructureId s p =
     (let currentState = snapshot (store s);
          generatedId = generateStructureId currentState
      in if migration_due generateStructureId s p
         then if serializer_isAsync caps
              then (s, p, [SubscriberAwaitsSerialize currentState generatedId])
              else migrate caps currentState generatedId (serialize (opts s) currentState) s p
         else (subscriber_rest currentState s, p, []))"

text \<open>\<open>persistData\<close>, lines 143-164, up to the \<open>await\<close> of line 153.\<close>

definition persistData_async :: "capabilities \<Rightarrow> session \<Rightarrow> process \<Rightarrow> process \<times> task list" where
  "persistData_async caps s p =
     (let currentState = snapshot (store s)
      in if \<not> shouldPersist (opts s) (previousState s) currentState then (p, [])
         else if serializer_isAsync caps then (p, [PersistAwaitsSerialize currentState])
         else (storage_set (key s) (serialize (opts s) currentState) p, []))"

text \<open>A suspended call goes on to its next \<open>await\<close> or to its end.\<close>

fun resume :: "capabilities \<Rightarrow> task \<Rightarrow> session \<Rightarrow> process \<Rightarrow> session \<times> process \<times> task list" where
  "resume caps (SubscriberAwaitsSerialize currentState generatedId) s p =
     migrate caps currentState generatedId (serialize (opts s) currentState) s p"
| "resume caps (SubscriberAwaitsRemove currentState generatedId data) s p =
     (s, storage_set generatedId data p, [SubscriberAwaitsSet currentState])"
| "resume caps (SubscriberAwaitsSet currentState) s p = (subscriber_rest currentState s, p, [])"
| "resume caps (PersistAwaitsSerialize currentState) s p =
     (s, storage_set (key s) (serialize (opts s) currentState) p, [])"

text \<open>
  A run with suspended calls: a mutation starts the subscriber, an expired timer starts
  \<open>persistData\<close>, and \<open>AResume n\<close> lets the \<open>n\<close>-th suspended call go on (the
  promise it awaits has resolved).
\<close>

datatype aevent =
    AMutation fields
  | AElapse nat
  | AResume nat

fun astep ::
  "capabilities \<Rightarrow> (jsval \<Rightarrow> string) \<Rightarrow> aevent \<Rightarrow> session \<times> process \<times> task list
     \<Rightarrow> session \<times> process \<times> task list" where
  "astep caps g (AMutation ns) (s, p, ts) =
     (case subscriber_async caps g (s\<lparr>store := ns\<rparr>) p of
        (s', p', new) \<Rightarrow> (s', p', ts @ new))"
| "astep caps g (AElapse d) (s, p, ts) =
     (case timer s of
        None \<Rightarrow> (s, p, ts)
      | Some r \<Rightarrow>
          if r \<le> d
          then (case persistData_async caps s p of
                  (p', new) \<Rightarrow> (s\<lparr>timer := None\<rparr>, p', ts @ new))
          else (s\<lparr>timer := Some (r - d)\<rparr>, p, ts))"
| "astep caps g (AResume n) (s, p, ts) =
     (if n < length ts
      then (case resume caps (ts ! n) s p of
              (s', p', new) \<Rightarrow> (s', p', take n ts @ drop (Suc n) ts @ new))
      else (s, p, ts))"

fun arun ::
  "capabilities \<Rightarrow> (jsval \<Rightarrow> string) \<Rightarrow> aevent list \<Rightarrow> session \<times> process \<times> task list
     \<Rightarrow> session \<times> process \<times> task list" where
  "arun caps g [] c = c"
| "arun caps g (e # es) c = arun caps g es (astep caps g e c)"

text \<open>
  A burst of mutations: each one follows the one before after the given number of
  milliseconds.
\<close>

fun aburst :: "(nat \<times> fields) list \<Rightarrow> aevent list" where
  "aburst [] = []"
| "aburst ((d, ns) # rest) = AElapse d # AMutation ns # aburst rest"

section \<open>Object identity: initialization and restore on a heap\<close>
















section \<open>Concrete strategies for the examples\<close>

text \<open>
  A stand-in for \<open>generateStructureId\<close> in concrete runs: the names of the top-level
  properties with the types of their values, so that it depends on the shape and not on
  the values.
\<close>

fun type_tag :: "jsval \<Rightarrow> string" where
  "type_tag JUndefined = ''u''"
| "type_tag JNull = ''z''"
| "type_tag (JBool b) = ''b''"
| "type_tag (JNum n) = ''n''"
| "type_tag JNaN = ''n''"
| "type_tag (JStr s) = ''s''"
| "type_tag (JObj fs) = ''o''"

definition shape_id :: "jsval \<Rightarrow> string" where
  "shape_id v =
     (case v of
        JObj fs \<Rightarrow> concat (map (\<lambda>kv. fst kv @ '':'' @ type_tag (snd kv) @ '';'') fs)
      | _ \<Rightarrow> type_tag v)"

text \<open>
  A serialization strategy for flat objects with string values: \<open>name=value;\<close> for each
  property. The empty object serializes to the empty string.
\<close>

fun kv_text :: "jsval \<Rightarrow> string" where
  "kv_text (JStr s) = s"
| "kv_text JUndefined = []"
| "kv_text JNull = []"
| "kv_text (JBool b) = []"
| "kv_text (JNum n) = []"
| "kv_text JNaN = []"
| "kv_text (JObj fs) = []"

definition kv_serialize :: "jsval \<Rightarrow> jsval" where
  "kv_serialize v =
     JStr (case v of
             JObj fs \<Rightarrow> concat (map (\<lambda>kv. fst kv @ ''='' @ kv_text (snd kv) @ '';'') fs)
           | _ \<Rightarrow> [])"

fun kv_parse :: "string \<Rightarrow> string \<Rightarrow> string \<Rightarrow> bool \<Rightarrow> fields" where
  "kv_parse [] k v in_value = []"
| "kv_parse (c # cs) k v in_value =
     (if c = CHR '';'' then (k, JStr v) # kv_parse cs [] [] False
      else if c = CHR ''='' \<and> \<not> in_value then kv_parse cs k [] True
      else if in_value then kv_parse cs k (v @ [c]) True
      else kv_parse cs (k @ [c]) v False)"

definition kv_deserialize :: "jsval \<Rightarrow> jsval" where
  "kv_deserialize d = (case d of JStr t \<Rightarrow> JObj (kv_parse t [] [] False) | _ \<Rightarrow> JNull)"

text \<open>A merge strategy: the stored properties assigned over the initial ones.\<close>

definition spread_merge :: "jsval \<Rightarrow> jsval \<Rightarrow> jsval" where
  "spread_merge init stored =
     (case (init, stored) of
        (JObj a, JObj b) \<Rightarrow> JObj (assign a b)
      | _ \<Rightarrow> stored)"

text \<open>The defaults of lines 69-77 around these strategies.\<close>

definition demo_options :: options where
  "demo_options =
     \<lparr>o_key = [], serialize = kv_serialize, deserialize = kv_deserialize,
      merge = spread_merge, shouldPersist = (\<lambda>prev next. True), debounceTime = 100,
      updateStorageKeyOnStructureChange = True\<rparr>"

section \<open>Concrete sessions for the examples\<close>

definition hello_state :: jsval where
  "hello_state = JObj [(''text'', JStr ''hello''), (''extra'', JStr ''init'')]"

definition keyed_options :: options where
  "keyed_options = demo_options\<lparr>o_key := ''k''\<rparr>"

definition stored_hi :: "string \<rightharpoonup> jsval" where
  "stored_hi = [''k'' \<mapsto> JStr ''text=hi;'']"

text \<open>
  The session and the process after \<open>persist(hello_state, {key: 'k'})\<close> in a fresh
  process whose storage holds \<open>text=hi;\<close> under \<open>k\<close>.
\<close>

definition hi_session :: session where
  "hi_session =
     \<lparr>key = ''k'', initialState = hello_state, opts = keyed_options,
      store = [(''text'', JStr ''hi''), (''extra'', JStr ''init'')],
      previousState = JObj [(''text'', JStr ''hi''), (''extra'', JStr ''init'')],
      timer = None\<rparr>"

definition hi_process :: process where
  "hi_process = \<lparr>userProvidedKey = True, backend = stored_hi, calls = [StorageGet ''k'']\<rparr>"

text \<open>
  The session and the process after \<open>persist(count_state)\<close> with the default key in a
  fresh process whose storage is empty.
\<close>

definition count_state :: jsval where
  "count_state = JObj [(''count'', JNum 1), (''text'', JStr ''hello'')]"

definition fresh_session :: session where
  "fresh_session =
     \<lparr>key = ''count:n;text:s;'', initialState = count_state, opts = demo_options,
      store = [], previousState = JObj [], timer = None\<rparr>"

definition fresh_process :: process where
  "fresh_process =
     \<lparr>userProvidedKey = False, backend = Map.empty, calls = [StorageGet ''count:n;text:s;'']\<rparr>"

text \<open>The store of \<open>hi_session\<close> after the caller has assigned both properties.\<close>

definition live_fields :: fields where
  "live_fields = [(''text'', JStr ''changed''), (''extra'', JStr ''live'')]"

definition live_session :: session where
  "live_session =
     hi_session\<lparr>store := live_fields, previousState := JObj live_fields, timer := Some 100\<rparr>"

text \<open>
  The session and the process after \<open>persist(hello_state)\<close> with the default key in a
  fresh process whose storage holds \<open>text=hi;\<close> under the derived key, and the store
  after the caller has added the property \<open>b\<close>.
\<close>

definition stored_auto :: "string \<rightharpoonup> jsval" where
  "stored_auto = [''text:s;extra:s;'' \<mapsto> JStr ''text=hi;'']"

definition auto_session :: session where
  "auto_session =
     \<lparr>key = ''text:s;extra:s;'', initialState = hello_state, opts = demo_options,
      store = [(''text'', JStr ''hi''), (''extra'', JStr ''init'')],
      previousState = JObj [(''text'', JStr ''hi''), (''extra'', JStr ''init'')],
      timer = None\<rparr>"

definition auto_process :: process where
  "auto_process =
     \<lparr>userProvidedKey = False, backend = stored_auto, calls = [StorageGet ''text:s;extra:s;'']\<rparr>"

definition grown_fields :: fields where
  "grown_fields = [(''text'', JStr ''hi''), (''extra'', JStr ''init''), (''b'', JStr ''x'')]"

text \<open>The same with a predicate that is always false.\<close>

definition never_options :: options where
  "never_options = demo_options\<lparr>shouldPersist := (\<lambda>prev next. False)\<rparr>"

definition never_session :: session where
  "never_session = auto_session\<lparr>opts := never_options\<rparr>"

text \<open>
  A process in which \<open>persist(hello_state)\<close> was called without a key before
  \<open>persist(hello_state, {key: 'k'})\<close>, the storage holding \<open>text=hi;\<close> under \<open>k\<close>.
\<close>

definition first_process :: process where
  "first_process =
     \<lparr>userProvidedKey = False, backend = stored_hi, calls = [StorageGet ''text:s;extra:s;'']\<rparr>"

definition second_process :: process where
  "second_process =
     \<lparr>userProvidedKey = False, backend = stored_hi,
      calls = [StorageGet ''text:s;extra:s;'', StorageGet ''k'']\<rparr>"

text \<open>Strategies that yield a falsy value.\<close>

definition null_merge_options :: options where
  "null_merge_options = keyed_options\<lparr>merge := (\<lambda>init stored. JNull)\<rparr>"

definition null_deserialize_options :: options where
  "null_deserialize_options = keyed_options\<lparr>deserialize := (\<lambda>d. JNull)\<rparr>"

text \<open>
  Capabilities for the examples, and \<open>hi_session\<close> with a debounce window of 0
  milliseconds.
\<close>

definition sync_caps :: capabilities where
  "sync_caps = \<lparr>storage_isAsync = False, serializer_isAsync = False\<rparr>"

definition async_caps :: capabilities where
  "async_caps = \<lparr>storage_isAsync = True, serializer_isAsync = True\<rparr>"

definition slow_storage_caps :: capabilities where
  "slow_storage_caps = \<lparr>storage_isAsync = True, serializer_isAsync = False\<rparr>"

definition zero_session :: session where
  "zero_session = hi_session\<lparr>opts := keyed_options\<lparr>debounceTime := 0\<rparr>\<rparr>"

section \<open>Concrete objects on the heap\<close>








section \<open>Facts about loading and about runs\<close>

lemma load_merged_process:
  "snd (load_merged init ops k p) = p\<lparr>calls := calls p @ [StorageGet k]\<rparr>"
  by (simp add: load_merged_def storage_get_def Let_def split: prod.splits)

lemma load_merged_value:
  "fst (load_merged init ops k p) =
     (case backend p k of
        None \<Rightarrow> JUndefined
      | Some d \<Rightarrow>
          if truthy d \<and> truthy (deserialize ops d)
          then or_null (merge ops init (deserialize ops d))
          else JUndefined)"
  by (simp add: load_merged_def storage_get_def or_null_def Let_def split: option.splits)

lemma load_merged_eq:
  "load_merged init ops k p = (fst (load_merged init ops k p), p\<lparr>calls := calls p @ [StorageGet k]\<rparr>)"
  using load_merged_process [of init ops k p] by (cases "load_merged init ops k p") simp

lemma restore_eq:
  "restore s p =
     (let m = fst (load_merged (initialState s) (opts s) (key s) p);
          p' = p\<lparr>calls := calls p @ [StorageGet (key s)]\<rparr>
      in if truthy m then (True, s\<lparr>store := updateStore (store s) m\<rparr>, p') else (False, s, p'))"
  unfolding restore_def
  by (subst load_merged_eq) (simp add: Let_def)

lemma persist_eq:
  "persist g init ops p =
     (let k = initial_key g init ops;
          p1 = (if o_key ops = [] then p\<lparr>userProvidedKey := False\<rparr> else p);
          m = fst (load_merged init ops k p1);
          p2 = p1\<lparr>calls := calls p1 @ [StorageGet k]\<rparr>
      in case proxy m of
           Inl e \<Rightarrow> (Inl e, p2)
         | Inr st \<Rightarrow>
             (Inr \<lparr>key = k, initialState = init, opts = ops, store = st,
                   previousState = snapshot st, timer = None\<rparr>, p2))"
  unfolding persist_def
  by (subst load_merged_eq) (simp add: Let_def)

lemma step_session_consts:
  "key (fst (step g e sp)) = key (fst sp) \<and> opts (fst (step g e sp)) = opts (fst sp)
   \<and> initialState (fst (step g e sp)) = initialState (fst sp)"
  by (cases sp; cases e)
     (simp_all add: subscriber_def debouncedPersist_def elapse_def clear_def restore_eq Let_def
        split: option.splits)

lemma step_flag:
  "userProvidedKey (snd (step g e sp)) = userProvidedKey (snd sp)"
  by (cases sp; cases e)
     (simp_all add: subscriber_def debouncedPersist_def elapse_def clear_def restore_eq Let_def
        persistData_def storage_set_def storage_remove_def
        split: option.splits)

lemma run_session_consts:
  "key (fst (run g es sp)) = key (fst sp) \<and> opts (fst (run g es sp)) = opts (fst sp)
   \<and> initialState (fst (run g es sp)) = initialState (fst sp)"
  by (induction es arbitrary: sp) (simp_all add: step_session_consts)

lemma run_flag:
  "userProvidedKey (snd (run g es sp)) = userProvidedKey (snd sp)"
  by (induction es arbitrary: sp) (simp_all add: step_flag)

lemma run_append: "run g (es @ fs) sp = run g fs (run g es sp)"
  by (induction es arbitrary: sp) simp_all

section \<open>The concrete sessions are reached\<close>

lemmas model_defs =
  persist_def initial_key_def load_merged_def storage_get_def storage_set_def
  storage_remove_def or_null_def snapshot_def persistData_def subscriber_def
  migration_due_def debouncedPersist_def elapse_def clear_def restore_def updateStore_def
  assign_def initial_process_def Let_def

lemmas demo_defs =
  shape_id_def kv_serialize_def kv_deserialize_def spread_merge_def demo_options_def
  hello_state_def keyed_options_def stored_hi_def hi_session_def hi_process_def
  count_state_def fresh_session_def fresh_process_def live_fields_def live_session_def
  stored_auto_def auto_session_def auto_process_def grown_fields_def never_options_def
  never_session_def first_process_def second_process_def null_merge_options_def
  null_deserialize_options_def

lemmas async_defs =
  subscriber_rest_def migrate_def subscriber_async_def persistData_async_def sync_caps_def
  async_caps_def slow_storage_caps_def zero_session_def


lemma hi_session_reached:
  "persist shape_id hello_state keyed_options (initial_process stored_hi)
     = (Inr hi_session, hi_process)"
  by (simp add: model_defs demo_defs)

lemma fresh_session_reached:
  "persist shape_id count_state demo_options (initial_process Map.empty)
     = (Inr fresh_session, fresh_process)"
  by (simp add: model_defs demo_defs)

lemma auto_session_reached:
  "persist shape_id hello_state demo_options (initial_process stored_auto)
     = (Inr auto_session, auto_process)"
  by (simp add: model_defs demo_defs)

lemma never_session_reached:
  "persist shape_id hello_state never_options (initial_process stored_auto)
     = (Inr never_session, auto_process)"
  by (simp add: model_defs demo_defs)


section \<open>Initialization\<close>

text \<open>
  Claim C1. When the storage holds nothing under the session's key, or holds falsy data
  or data whose deserialization is falsy, \<open>persist\<close> passes \<open>undefined\<close> to \<open>proxy\<close>
  (lines 132-138): the live store starts with no properties, whatever \<open>init\<close> is, and
  not with the fields of the initial state as the claim says.
\<close>

theorem persist_without_stored_data:
  assumes "case backend p (initial_key g init ops) of
             None \<Rightarrow> True
           | Some d \<Rightarrow> \<not> truthy d \<or> \<not> truthy (deserialize ops d)"
  shows "fst (load_merged init ops (initial_key g init ops) p) = JUndefined
         \<and> fst (persist g init ops p)
             = Inr \<lparr>key = initial_key g init ops, initialState = init, opts = ops, store = [],
                    previousState = JObj [], timer = None\<rparr>"
  using assms
  by (auto simp: persist_eq load_merged_value snapshot_def Let_def split: option.splits)

text \<open>
  The theorem at \<open>persist({count: 1, text: 'hello'})\<close> in a fresh process with an empty
  storage: the store is empty and its snapshot is not the initial state.
\<close>

theorem persist_without_stored_data_witness:
  "persist shape_id count_state demo_options (initial_process Map.empty)
     = (Inr fresh_session, fresh_process)
   \<and> store fresh_session = []
   \<and> snapshot (store fresh_session) \<noteq> count_state"
  using persist_without_stored_data [where p = "initial_process Map.empty" and g = shape_id
      and init = count_state and ops = demo_options]
  by (simp add: model_defs demo_defs)

text \<open>
  Claim C10, as amended. A falsy deserialization is treated exactly like no stored
  value: at initialization \<open>persist\<close> yields the session it yields when nothing is
  stored under the key, and \<open>restore()\<close> returns false, leaves the session as it is and
  has made the one \<open>get\<close>, as it does when nothing is stored. A falsy merge result makes
  \<open>restore()\<close> return false in the same way. (At initialization a falsy merge result
  is not treated like no stored value: see the counterexample.)
\<close>

theorem falsy_deserialize_or_merge:
  "(backend p (initial_key g init ops) = Some d \<and> \<not> truthy (deserialize ops d) \<longrightarrow>
      fst (persist g init ops p)
        = fst (persist g init ops (p\<lparr>backend := (backend p)(initial_key g init ops := None)\<rparr>)))
   \<and> (backend p (key s) = Some d
        \<and> (\<not> truthy (deserialize (opts s) d)
            \<or> \<not> truthy (merge (opts s) (initialState s) (deserialize (opts s) d)))
        \<longrightarrow> restore s p = (False, s, p\<lparr>calls := calls p @ [StorageGet (key s)]\<rparr>))
   \<and> (backend p (key s) = None
        \<longrightarrow> restore s p = (False, s, p\<lparr>calls := calls p @ [StorageGet (key s)]\<rparr>))"
  by (auto simp: persist_eq restore_eq load_merged_value or_null_def Let_def)

text \<open>
  The theorem with a deserializer and with a merger that return \<open>null\<close>, the storage
  holding \<open>text=hi;\<close> under the key, and at the fresh session with nothing stored.
\<close>

theorem falsy_deserialize_or_merge_witness:
  "fst (persist shape_id hello_state null_deserialize_options (initial_process stored_hi))
     = fst (persist shape_id hello_state null_deserialize_options (initial_process Map.empty))
   \<and> restore (hi_session\<lparr>opts := null_deserialize_options\<rparr>) hi_process
       = (False, hi_session\<lparr>opts := null_deserialize_options\<rparr>,
          hi_process\<lparr>calls := [StorageGet ''k'', StorageGet ''k'']\<rparr>)
   \<and> restore (hi_session\<lparr>opts := null_merge_options\<rparr>) hi_process
       = (False, hi_session\<lparr>opts := null_merge_options\<rparr>,
          hi_process\<lparr>calls := [StorageGet ''k'', StorageGet ''k'']\<rparr>)
   \<and> restore fresh_session fresh_process
       = (False, fresh_session,
          fresh_process\<lparr>calls := [StorageGet ''count:n;text:s;'', StorageGet ''count:n;text:s;'']\<rparr>)"
  using falsy_deserialize_or_merge [where p = "initial_process stored_hi" and g = shape_id
      and init = hello_state and ops = null_deserialize_options and d = "JStr ''text=hi;''"
      and s = "hi_session\<lparr>opts := null_deserialize_options\<rparr>"]
    falsy_deserialize_or_merge [where p = hi_process and g = shape_id
      and init = hello_state and ops = null_deserialize_options and d = "JStr ''text=hi;''"
      and s = "hi_session\<lparr>opts := null_deserialize_options\<rparr>"]
    falsy_deserialize_or_merge [where p = hi_process and g = shape_id
      and init = hello_state and ops = null_merge_options and d = "JStr ''text=hi;''"
      and s = "hi_session\<lparr>opts := null_merge_options\<rparr>"]
    falsy_deserialize_or_merge [where p = fresh_process and g = shape_id
      and init = hello_state and ops = null_merge_options and d = "JStr ''text=hi;''"
      and s = fresh_session]
  by (simp add: initial_key_def initial_process_def demo_defs)

text \<open>
  Claim C10 as stated fails at initialization for a falsy merge result: line 134-135
  turn it into \<open>null\<close>, where the no-stored-data path of line 136 yields
  \<open>undefined\<close>; \<open>proxy(null)\<close> throws, \<open>proxy(undefined)\<close> builds an empty store.
\<close>

theorem falsy_merge_at_initialization_counterexample:
  "\<not> truthy (merge null_merge_options hello_state
         (deserialize null_merge_options (JStr ''text=hi;'')))
   \<and> fst (load_merged hello_state null_merge_options ''k'' (initial_process stored_hi)) = JNull
   \<and> fst (load_merged hello_state null_merge_options ''k'' (initial_process Map.empty))
       = JUndefined
   \<and> fst (persist shape_id hello_state null_merge_options (initial_process stored_hi))
       = Inl ObjectRequired
   \<and> fst (persist shape_id hello_state null_merge_options (initial_process Map.empty))
       = Inr \<lparr>key = ''k'', initialState = hello_state, opts = null_merge_options, store = [],
              previousState = JObj [], timer = None\<rparr>"
  by (simp add: model_defs demo_defs)

section \<open>The operations of the handle\<close>

text \<open>
  Claim C6. Every call of the handle's \<open>persist()\<close> takes a snapshot of the store and
  evaluates \<open>shouldPersist(previousState, currentState)\<close>. When that is false, the
  call leaves the storage and the list of storage calls as they are. When it is true, the
  call makes exactly one storage call, \<open>set(key, serialize(currentState))\<close>, under the
  session's key, after which the storage holds that data under that key.
\<close>

theorem persistData_gated_write:
  "(\<not> shouldPersist (opts s) (previousState s) (snapshot (store s)) \<longrightarrow> persistData s p = p)
   \<and> (shouldPersist (opts s) (previousState s) (snapshot (store s)) \<longrightarrow>
        persistData s p =
          p\<lparr>backend := (backend p)(key s \<mapsto> serialize (opts s) (snapshot (store s))),
            calls := calls p @ [StorageSet (key s) (serialize (opts s) (snapshot (store s)))]\<rparr>)"
  by (simp add: persistData_def storage_set_def Let_def)

text \<open>
  The theorem at \<open>hi_session\<close>, whose predicate is always true, and at the same session
  with a predicate that is always false.
\<close>

theorem persistData_gated_write_witness:
  "persistData hi_session hi_process =
     hi_process\<lparr>backend := (backend hi_process)(''k'' \<mapsto> JStr ''text=hi;extra=init;''),
       calls := [StorageGet ''k'', StorageSet ''k'' (JStr ''text=hi;extra=init;'')]\<rparr>
   \<and> persistData (hi_session\<lparr>opts := keyed_options\<lparr>shouldPersist := (\<lambda>prev next. False)\<rparr>\<rparr>)
        hi_process = hi_process"
  using persistData_gated_write [of hi_session hi_process]
    persistData_gated_write
      [of "hi_session\<lparr>opts := keyed_options\<lparr>shouldPersist := (\<lambda>prev next. False)\<rparr>\<rparr>" hi_process]
  by (simp add: demo_defs snapshot_def)





text \<open>
  Claim C8. \<open>restore()\<close> returns true exactly when the storage holds data under the
  session's key, the data is truthy, its deserialization is truthy and the merge of the
  initial state with it is truthy; the merged value has then been applied to the store.
  Otherwise it returns false and the session is unchanged. In particular, a session that
  \<open>persist\<close> built without an explicit key in a fresh process, with nothing stored
  under the derived key, has \<open>restore()\<close> return false.
\<close>

theorem restore_result:
  "(fst (restore s p) \<longleftrightarrow>
      (\<exists>d. backend p (key s) = Some d \<and> truthy d \<and> truthy (deserialize (opts s) d)
           \<and> truthy (merge (opts s) (initialState s) (deserialize (opts s) d))))
   \<and> (fst (restore s p) \<longrightarrow>
        (\<exists>d. backend p (key s) = Some d
             \<and> store (fst (snd (restore s p)))
                 = updateStore (store s)
                     (merge (opts s) (initialState s) (deserialize (opts s) d))))
   \<and> (\<not> fst (restore s p) \<longrightarrow> fst (snd (restore s p)) = s)
   \<and> (o_key ops = [] \<and> b (g init) = None
        \<and> persist g init ops (initial_process b) = (Inr s', p')
        \<longrightarrow> \<not> fst (restore s' p'))"
proof -
  have fresh: "\<not> fst (restore s' p')"
    if k: "o_key ops = []" and b: "b (g init) = None"
      and pr: "persist g init ops (initial_process b) = (Inr s', p')"
  proof -
    have "key s' = g init \<and> backend p' = b"
      using pr k
      by (auto simp: persist_eq initial_key_def initial_process_def Let_def
          split: sum.splits)
    then show ?thesis
      using b by (simp add: restore_eq load_merged_value Let_def)
  qed
  show ?thesis
    using fresh
    by (auto simp: restore_eq load_merged_value or_null_def Let_def split: option.splits if_splits)
qed

text \<open>
  The theorem at \<open>hi_session\<close>, where \<open>restore()\<close> returns true, and at the fresh
  session without an explicit key, where it returns false.
\<close>

theorem restore_result_witness:
  "fst (restore hi_session hi_process)
   \<and> store (fst (snd (restore hi_session hi_process)))
       = [(''text'', JStr ''hi''), (''extra'', JStr ''init'')]
   \<and> persist shape_id count_state demo_options (initial_process Map.empty)
       = (Inr fresh_session, fresh_process)
   \<and> \<not> fst (restore fresh_session fresh_process)
   \<and> fst (snd (restore fresh_session fresh_process)) = fresh_session"
  using restore_result [where s = hi_session and p = hi_process and ops = demo_options
      and b = Map.empty and g = shape_id and init = count_state and s' = fresh_session
      and p' = fresh_process]
    restore_result [where s = fresh_session and p = fresh_process and ops = demo_options
      and b = Map.empty and g = shape_id and init = count_state and s' = fresh_session
      and p' = fresh_process]
    fresh_session_reached
  by (simp add: model_defs demo_defs)

text \<open>
  Claim C9. \<open>clear()\<close> makes one storage call, \<open>remove(key)\<close> with the session's key,
  and nothing else: the session, and with it the in-memory store, is unchanged.
\<close>

theorem clear_only_removes_entry:
  "clear s p =
     (s, p\<lparr>backend := (backend p)(key s := None), calls := calls p @ [StorageRemove (key s)]\<rparr>)"
  by (simp add: clear_def storage_remove_def)

section \<open>Mutations: key migration and the debounced write\<close>

lemma migration_sets_cong:
  "key s' = key s \<Longrightarrow> opts s' = opts s \<Longrightarrow> userProvidedKey p' = userProvidedKey p \<Longrightarrow>
     migration_sets g s' p' es = migration_sets g s p es"
  by (induction g s p es rule: migration_sets.induct) (simp_all add: migration_due_def)

lemma migration_sets_append:
  "migration_sets g s p (es @ fs) = migration_sets g s p es @ migration_sets g s p fs"
  by (induction g s p es rule: migration_sets.induct) simp_all

lemma step_mutation:
  "step g (Mutation ns) (s, p) =
     ((if shouldPersist (opts s) (previousState s) (snapshot ns)
       then s\<lparr>store := ns, timer := Some (debounceTime (opts s)), previousState := snapshot ns\<rparr>
       else s\<lparr>store := ns, previousState := snapshot ns\<rparr>),
      (if migration_due g (s\<lparr>store := ns\<rparr>) p
       then storage_set (g (snapshot ns)) (serialize (opts s) (snapshot ns))
              (storage_remove (key s) p)
       else p))"
  by (simp add: subscriber_def debouncedPersist_def Let_def)

lemma step_mutation_sets:
  "filter is_set (calls (snd (step g (Mutation ns) (s, p))))
     = filter is_set (calls p) @ migration_sets g s p [Mutation ns]"
  by (subst step_mutation) (simp add: storage_set_def storage_remove_def)

lemma step_sets_never:
  assumes "\<forall>a b. \<not> shouldPersist (opts s) a b"
  shows "filter is_set (calls (snd (step g e (s, p))))
           = filter is_set (calls p) @ migration_sets g s p [e]"
proof (cases e)
  case (Mutation ns)
  then show ?thesis by (simp only: step_mutation_sets)
next
  case (Elapse d)
  then show ?thesis
    using assms by (simp add: elapse_def persistData_def split: option.splits)
next
  case CallPersist
  then show ?thesis
    using assms by (simp add: persistData_def)
next
  case CallRestore
  then show ?thesis
    by (simp add: restore_eq Let_def)
next
  case CallClear
  then show ?thesis
    by (simp add: clear_def storage_remove_def)
qed

text \<open>
  Claim C2. In a session without an explicit key, a mutation that adds a property makes
  the subscriber serialize the snapshot, remove the old key's entry and write the data
  under the derived key, as the claim says. The new key does not become the session's
  key, which is the constant of line 81: the \<open>persist()\<close> that follows writes under the
  old key, so the entry that the migration removed is back.
\<close>

theorem migration_keeps_old_key:
  "persist shape_id hello_state demo_options (initial_process stored_auto)
     = (Inr auto_session, auto_process)
   \<and> key (fst (run shape_id [Mutation grown_fields, CallPersist] (auto_session, auto_process)))
       = ''text:s;extra:s;''
   \<and> calls (snd (run shape_id [Mutation grown_fields, CallPersist] (auto_session, auto_process)))
       = [StorageGet ''text:s;extra:s;'', StorageRemove ''text:s;extra:s;'',
          StorageSet ''text:s;extra:s;b:s;'' (JStr ''text=hi;extra=init;b=x;''),
          StorageSet ''text:s;extra:s;'' (JStr ''text=hi;extra=init;b=x;'')]
   \<and> backend (snd (run shape_id [Mutation grown_fields, CallPersist] (auto_session, auto_process)))
         ''text:s;extra:s;''
       = Some (JStr ''text=hi;extra=init;b=x;'')"
  by (simp add: model_defs demo_defs)

text \<open>
  Claim C3, as amended. In a session whose \<open>shouldPersist\<close> is always false, whatever
  mutations, timer expirations and operations of the handle happen, the only \<open>set\<close>
  calls are the writes of the migration block: one for each mutation on which the guard
  of line 176 holds. When it holds on none, no \<open>set\<close> call is made.
\<close>

theorem never_persisting_writes_only_on_migration:
  assumes "\<forall>a b. \<not> shouldPersist (opts s) a b"
  shows "filter is_set (calls (snd (run g es (s, p))))
           = filter is_set (calls p) @ migration_sets g s p es"
  using assms
proof (induction es arbitrary: s p)
  case Nil
  then show ?case by simp
next
  case (Cons e es)
  obtain s1 p1 where st: "step g e (s, p) = (s1, p1)"
    by (cases "step g e (s, p)")
  have same: "key s1 = key s" "opts s1 = opts s" "userProvidedKey p1 = userProvidedKey p"
    using step_session_consts [of g e "(s, p)"] step_flag [of g e "(s, p)"] st by simp_all
  have one: "filter is_set (calls p1) = filter is_set (calls p) @ migration_sets g s p [e]"
    using step_sets_never [OF Cons.prems, of g e p] st by simp
  have "filter is_set (calls (snd (run g es (s1, p1))))
          = filter is_set (calls p1) @ migration_sets g s1 p1 es"
    using Cons.IH [of s1 p1] Cons.prems same by simp
  also have "migration_sets g s1 p1 es = migration_sets g s p es"
    using same by (rule migration_sets_cong)
  finally show ?case
    using st one migration_sets_append [of g s p "[e]" es] by simp
qed

text \<open>
  The theorem at the session without an explicit key whose predicate is always false:
  no write while the shape stays, one write when the caller adds a property.
\<close>

theorem never_persisting_writes_only_on_migration_witness:
  "filter is_set
     (calls (snd (run shape_id [Mutation live_fields, Elapse 200, CallPersist, CallRestore,
        CallClear] (never_session, auto_process)))) = []
   \<and> filter is_set
       (calls (snd (run shape_id [Mutation live_fields, Elapse 200, Mutation grown_fields,
          CallPersist] (never_session, auto_process))))
       = [StorageSet ''text:s;extra:s;b:s;'' (JStr ''text=hi;extra=init;b=x;'')]"
proof -
  have never: "\<forall>a b. \<not> shouldPersist (opts never_session) a b"
    by (simp add: demo_defs)
  show ?thesis
    using never_persisting_writes_only_on_migration [OF never, of shape_id
        "[Mutation live_fields, Elapse 200, CallPersist, CallRestore, CallClear]" auto_process]
      never_persisting_writes_only_on_migration [OF never, of shape_id
        "[Mutation live_fields, Elapse 200, Mutation grown_fields, CallPersist]" auto_process]
    by (simp add: migration_due_def snapshot_def demo_defs)
qed

text \<open>
  Claim C3 as stated fails: with a predicate that is always false, a mutation that
  changes the structure makes the subscriber call \<open>set\<close> (line 183).
\<close>

theorem never_persisting_migration_write_counterexample:
  "shouldPersist never_options = (\<lambda>prev next. False)
   \<and> persist shape_id hello_state never_options (initial_process stored_auto)
       = (Inr never_session, auto_process)
   \<and> calls (snd (run shape_id [Mutation grown_fields] (never_session, auto_process)))
       = [StorageGet ''text:s;extra:s;'', StorageRemove ''text:s;extra:s;'',
          StorageSet ''text:s;extra:s;b:s;'' (JStr ''text=hi;extra=init;b=x;'')]"
  by (simp add: model_defs demo_defs)

text \<open>
  While the module-level flag is still true, that is, before any \<open>persist\<close> without a
  key in the process, the subscriber makes no storage call.
\<close>

lemma no_migration_while_flag_set:
  "userProvidedKey p \<Longrightarrow> snd (step g (Mutation ns) (s, p)) = p"
  by (subst step_mutation) (simp add: migration_due_def)

text \<open>
  Claim C4. \<open>persist(hello_state)\<close> without a key sets the module-level flag of line
  63 to false for the whole process. A session created afterwards with the explicit key
  \<open>k\<close> then passes the guard of line 176 on a mutation that adds a property: the
  subscriber removes the entry at \<open>k\<close> and writes under the derived key, which the
  claim says never happens.
\<close>

theorem explicit_key_migrates_after_keyless_session:
  "persist shape_id hello_state demo_options (initial_process stored_hi)
     = (Inr (fresh_session\<lparr>key := ''text:s;extra:s;'', initialState := hello_state\<rparr>),
        first_process)
   \<and> persist shape_id hello_state keyed_options first_process = (Inr hi_session, second_process)
   \<and> calls (snd (run shape_id [Mutation grown_fields] (hi_session, second_process)))
       = [StorageGet ''text:s;extra:s;'', StorageGet ''k'', StorageRemove ''k'',
          StorageSet ''text:s;extra:s;b:s;'' (JStr ''text=hi;extra=init;b=x;'')]
   \<and> backend (snd (run shape_id [Mutation grown_fields] (hi_session, second_process))) ''k''
       = None"
  by (simp add: model_defs demo_defs)

lemma subscriber_async_sync:
  "\<not> storage_isAsync caps \<Longrightarrow> \<not> serializer_isAsync caps \<Longrightarrow>
     subscriber_async caps g s p = (fst (subscriber g s p), snd (subscriber g s p), [])"
  by (simp add: subscriber_async_def migrate_def subscriber_rest_def subscriber_def Let_def)

lemma persistData_async_sync:
  "\<not> serializer_isAsync caps \<Longrightarrow> persistData_async caps s p = (persistData s p, [])"
  by (simp add: persistData_async_def persistData_def Let_def)

lemma arun_append: "arun caps g (es @ fs) c = arun caps g fs (arun caps g es c)"
  by (induction es arbitrary: c) simp_all

lemma astep_quiet_mutation:
  assumes "\<forall>a b. shouldPersist (opts s) a b"
    and "\<not> migration_due g (s\<lparr>store := ns\<rparr>) p"
  shows "astep caps g (AMutation ns) (s, p, ts) =
           (s\<lparr>store := ns, timer := Some (debounceTime (opts s)),
              previousState := snapshot ns\<rparr>, p, ts)"
  using assms by (simp add: subscriber_async_def subscriber_rest_def debouncedPersist_def Let_def)

lemma migration_due_cong:
  "key s' = key s \<Longrightarrow> opts s' = opts s \<Longrightarrow>
     migration_due g (s'\<lparr>store := ns\<rparr>) p = migration_due g (s\<lparr>store := ns\<rparr>) p"
  by (simp add: migration_due_def)

lemma aburst_run:
  assumes "\<forall>a b. shouldPersist (opts s) a b"
    and "\<forall>d\<in>set (map fst rest). d < debounceTime (opts s)"
    and "\<forall>ms\<in>set (map snd rest). \<not> migration_due g (s\<lparr>store := ms\<rparr>) p"
    and "timer s = Some (debounceTime (opts s))"
  shows "\<exists>s'. arun caps g (aburst rest) (s, p, ts) = (s', p, ts)
           \<and> timer s' = Some (debounceTime (opts s)) \<and> key s' = key s \<and> opts s' = opts s
           \<and> store s' = last (store s # map snd rest)"
  using assms
proof (induction rest arbitrary: s)
  case Nil
  then show ?case by simp
next
  case (Cons dn rest)
  obtain d ns where dn: "dn = (d, ns)"
    by (cases dn)
  let ?w = "debounceTime (opts s)"
  let ?s1 = "s\<lparr>timer := Some (?w - d)\<rparr>"
  let ?s2 = "s\<lparr>store := ns, timer := Some ?w, previousState := snapshot ns\<rparr>"
  have d: "d < ?w"
    using Cons.prems(2) dn by simp
  have e: "astep caps g (AElapse d) (s, p, ts) = (?s1, p, ts)"
    using Cons.prems(4) d by simp
  have quiet: "\<not> migration_due g (?s1\<lparr>store := ns\<rparr>) p"
    using Cons.prems(3) dn migration_due_cong [of ?s1 s g ns p] by simp
  have m: "astep caps g (AMutation ns) (?s1, p, ts) = (?s2, p, ts)"
    using astep_quiet_mutation [of ?s1 g ns p caps ts] Cons.prems(1) quiet by simp
  have rest_quiet: "\<forall>ms\<in>set (map snd rest). \<not> migration_due g (?s2\<lparr>store := ms\<rparr>) p"
    using Cons.prems(3) by (auto simp: migration_due_def)
  have "\<exists>s'. arun caps g (aburst rest) (?s2, p, ts) = (s', p, ts)
           \<and> timer s' = Some (debounceTime (opts ?s2)) \<and> key s' = key ?s2 \<and> opts s' = opts ?s2
           \<and> store s' = last (store ?s2 # map snd rest)"
    using Cons.prems(1,2) rest_quiet by (intro Cons.IH) simp_all
  then show ?case
    using dn e m by simp
qed

text \<open>
  Claim C5, as amended. Take a session whose \<open>shouldPersist\<close> is always true, with
  debounce window \<open>w\<close>, synchronous or asynchronous strategies and no suspended call.
  Let one mutation be followed by further ones, each less than \<open>w\<close> milliseconds after
  the one before (as when the whole burst lies within less than \<open>w\<close> milliseconds), none
  of them meeting the guard of line 176, and let at least \<open>w\<close> milliseconds pass after
  the last. Then the burst causes exactly one storage call: the debounced writer's
  \<open>set\<close>, with the session's key and the serialization of the snapshot after the last
  mutation. No timer and no suspended call is left.
\<close>

theorem quiet_burst_writes_once:
  assumes "\<forall>a b. shouldPersist (opts s) a b"
    and "\<forall>d\<in>set (map fst rest). d < debounceTime (opts s)"
    and "debounceTime (opts s) \<le> e"
    and "\<forall>ms\<in>set (ns # map snd rest). \<not> migration_due g (s\<lparr>store := ms\<rparr>) p"
  shows "\<exists>s' p'. arun caps g (AMutation ns # aburst rest @ [AElapse e, AResume 0]) (s, p, [])
                  = (s', p', [])
             \<and> calls p' = calls p @ [StorageSet (key s)
                                      (serialize (opts s) (snapshot (last (ns # map snd rest))))]
             \<and> timer s' = None \<and> store s' = last (ns # map snd rest)"
proof -
  let ?w = "debounceTime (opts s)"
  let ?s1 = "s\<lparr>store := ns, timer := Some ?w, previousState := snapshot ns\<rparr>"
  let ?D = "serialize (opts s) (snapshot (last (ns # map snd rest)))"
  have m: "astep caps g (AMutation ns) (s, p, []) = (?s1, p, [])"
    using astep_quiet_mutation [of s g ns p caps "[]"] assms(1,4) by simp
  have rest_quiet: "\<forall>ms\<in>set (map snd rest). \<not> migration_due g (?s1\<lparr>store := ms\<rparr>) p"
    using assms(4) by (auto simp: migration_due_def)
  have "\<exists>s'. arun caps g (aburst rest) (?s1, p, []) = (s', p, [])
           \<and> timer s' = Some (debounceTime (opts ?s1)) \<and> key s' = key ?s1 \<and> opts s' = opts ?s1
           \<and> store s' = last (store ?s1 # map snd rest)"
    using assms(1,2) rest_quiet by (intro aburst_run) simp_all
  then obtain s' where r: "arun caps g (aburst rest) (?s1, p, []) = (s', p, [])"
    and t: "timer s' = Some ?w" "key s' = key s" "opts s' = opts s"
      "store s' = last (ns # map snd rest)"
    by auto
  have fire: "arun caps g [AElapse e, AResume 0] (s', p, [])
                = (s'\<lparr>timer := None\<rparr>,
                   p\<lparr>backend := (backend p)(key s \<mapsto> ?D),
                     calls := calls p @ [StorageSet (key s) ?D]\<rparr>, [])"
    using t assms(1,3) by (simp add: persistData_async_def storage_set_def Let_def)
  have "arun caps g (AMutation ns # aburst rest @ [AElapse e, AResume 0]) (s, p, [])
          = arun caps g [AElapse e, AResume 0] (s', p, [])"
    using m r by (simp add: arun_append)
  with fire t show ?thesis
    by simp
qed

text \<open>
  The theorem at \<open>hi_session\<close> with an asynchronous serializer and storage: three
  mutations, 30 and 40 milliseconds apart, with a window of 100 milliseconds; and at one
  mutation with a window of 0 milliseconds.
\<close>

theorem quiet_burst_writes_once_witness:
  "calls (fst (snd (arun async_caps shape_id
      (AMutation live_fields # aburst [(30, grown_fields), (40, live_fields)]
         @ [AElapse 100, AResume 0])
      (hi_session, hi_process, []))))
     = [StorageGet ''k'', StorageSet ''k'' (JStr ''text=changed;extra=live;'')]
   \<and> arun async_caps shape_id
       (AMutation live_fields # aburst [(30, grown_fields), (40, live_fields)]
          @ [AElapse 100])
       (hi_session, hi_process, [])
       = (live_session\<lparr>timer := None\<rparr>, hi_process,
          [PersistAwaitsSerialize (JObj live_fields)])
   \<and> fst (arun async_caps shape_id
       (AMutation live_fields # aburst [(30, grown_fields), (40, live_fields)]
          @ [AElapse 100, AResume 0])
       (hi_session, hi_process, [])) = live_session\<lparr>timer := None\<rparr>
   \<and> snd (snd (arun async_caps shape_id
       (AMutation live_fields # aburst [(30, grown_fields), (40, live_fields)]
          @ [AElapse 100, AResume 0])
       (hi_session, hi_process, []))) = []
   \<and> calls (fst (snd (arun sync_caps shape_id [AMutation live_fields, AElapse 0, AResume 0]
       (zero_session, hi_process, []))))
       = [StorageGet ''k'', StorageSet ''k'' (JStr ''text=changed;extra=live;'')]
   \<and> timer (fst (arun sync_caps shape_id [AMutation live_fields, AElapse 0, AResume 0]
       (zero_session, hi_process, []))) = None"
proof -
  have always: "\<forall>a b. shouldPersist (opts hi_session) a b"
    by (simp add: demo_defs)
  have gaps: "\<forall>d\<in>set (map fst [(30::nat, grown_fields), (40, live_fields)]).
                d < debounceTime (opts hi_session)"
    by (simp add: demo_defs)
  have wait: "debounceTime (opts hi_session) \<le> 100"
    by (simp add: demo_defs)
  have quiet: "\<forall>ms\<in>set (live_fields # map snd [(30::nat, grown_fields), (40, live_fields)]).
                 \<not> migration_due shape_id (hi_session\<lparr>store := ms\<rparr>) hi_process"
    by (simp add: migration_due_def demo_defs)
  have always0: "\<forall>a b. shouldPersist (opts zero_session) a b"
    by (simp add: async_defs demo_defs)
  have gaps0: "\<forall>d\<in>set (map fst ([]::(nat \<times> fields) list)). d < debounceTime (opts zero_session)"
    by simp
  have wait0: "debounceTime (opts zero_session) \<le> 0"
    by (simp add: async_defs demo_defs)
  have quiet0: "\<forall>ms\<in>set (live_fields # map snd ([]::(nat \<times> fields) list)).
                  \<not> migration_due shape_id (zero_session\<lparr>store := ms\<rparr>) hi_process"
    by (simp add: migration_due_def async_defs demo_defs)
  show ?thesis
    using quiet_burst_writes_once [OF always gaps wait quiet, of async_caps]
      quiet_burst_writes_once [OF always0 gaps0 wait0 quiet0, of sync_caps]
    by (simp add: model_defs async_defs demo_defs)
qed

text \<open>
  Claim C5 as stated fails: in a session without an explicit key and with synchronous
  strategies, one mutation that adds a property causes two \<open>set\<close> calls, the
  migration's and the debounced writer's.
\<close>

theorem debounced_burst_migration_counterexample:
  "shouldPersist (opts auto_session) = (\<lambda>prev next. True)
   \<and> debounceTime (opts auto_session) = 100
   \<and> persist shape_id hello_state demo_options (initial_process stored_auto)
       = (Inr auto_session, auto_process)
   \<and> filter is_set
       (calls (snd (run shape_id [Mutation grown_fields, Elapse 100] (auto_session, auto_process))))
       = [StorageSet ''text:s;extra:s;b:s;'' (JStr ''text=hi;extra=init;b=x;''),
          StorageSet ''text:s;extra:s;'' (JStr ''text=hi;extra=init;b=x;'')]
   \<and> filter is_set
       (calls (fst (snd (arun sync_caps shape_id [AMutation grown_fields, AElapse 100, AResume 0]
          (auto_session, auto_process, [])))))
       = [StorageSet ''text:s;extra:s;b:s;'' (JStr ''text=hi;extra=init;b=x;''),
          StorageSet ''text:s;extra:s;'' (JStr ''text=hi;extra=init;b=x;'')]"
  by (simp add: model_defs async_defs demo_defs)

text \<open>
  With a mutation that meets the guard of line 176 and an asynchronous storage, the
  subscriber reaches line 191 only when the storage calls have completed. Here the
  caller adds a property and takes it away 10 milliseconds later; the storage completes
  its \<open>remove\<close> only after the debounced writer has run, and the resumed subscriber
  starts the timer again: the debounced writer writes twice.
\<close>

lemma slow_storage_two_debounced_writes:
  "filter is_set
     (calls (fst (snd (arun slow_storage_caps shape_id
        [AMutation grown_fields, AElapse 10, AMutation (store auto_session), AElapse 100,
         AResume 0, AResume 0, AElapse 100]
        (auto_session, auto_process, [])))))
     = [StorageSet ''text:s;extra:s;'' (JStr ''text=hi;extra=init;''),
        StorageSet ''text:s;extra:s;b:s;'' (JStr ''text=hi;extra=init;b=x;''),
        StorageSet ''text:s;extra:s;'' (JStr ''text=hi;extra=init;'')]"
  by (simp add: model_defs async_defs demo_defs)

end
